theory Spec2Isabelle
  imports Complex_Main
begin

section \<open>Representation similarity: CKA and CCA over dense matrices\<close>

text \<open>
  The notebook \<^verbatim>\<open>representation_similarity/Demo.ipynb\<close> defines \<^verbatim>\<open>gram_linear\<close>,
  \<^verbatim>\<open>gram_rbf\<close>, \<^verbatim>\<open>center_gram\<close>, \<^verbatim>\<open>cka\<close>,
  \<^verbatim>\<open>_debiased_dot_product_similarity_helper\<close>, \<^verbatim>\<open>feature_space_linear_cka\<close> and
  \<^verbatim>\<open>cca\<close> over numpy arrays of floats.  The embedding below is in exact real
  arithmetic: an array entry is a \<^typ>\<open>real\<close>, rounding is not modelled.  What numpy does
  beyond returning a finite value is an outcome of its own: a Python exception is
  \<open>Raise\<close>, and a result holding \<^verbatim>\<open>nan\<close> or \<^verbatim>\<open>inf\<close> (a float division by zero, the
  square root of a negative number) is \<open>NonFinite\<close>.
\<close>

subsection \<open>Outcomes\<close>

datatype error = ValueError string | ZeroDivisionError string

fun exception_name :: "error \<Rightarrow> string" where
  "exception_name (ValueError msg) = ''ValueError''"
| "exception_name (ZeroDivisionError msg) = ''ZeroDivisionError''"

datatype 'a result = Raise error | NonFinite | Return 'a

subsection \<open>Two-dimensional arrays\<close>

text \<open>
  A two-dimensional \<^verbatim>\<open>ndarray\<close> of shape \<open>(nrows, ncols)\<close> is its list of rows; the
  number of columns is kept beside it, so that shapes with no row or no column are
  told apart.  A one-dimensional array is a list.
\<close>

datatype matrix = Matrix (ncols: nat) (rows: "real list list")

definition nrows :: "matrix \<Rightarrow> nat" where
  "nrows a = length (rows a)"

definition wf_matrix :: "matrix \<Rightarrow> bool" where
  "wf_matrix a = list_all (\<lambda>r. length r = ncols a) (rows a)"

definition entry :: "matrix \<Rightarrow> nat \<Rightarrow> nat \<Rightarrow> real" where
  "entry a i j = rows a ! i ! j"

text \<open>The array of shape \<open>(n, m)\<close> whose entry \<open>(i, j)\<close> is \<open>f i j\<close>.\<close>

definition ndarray :: "nat \<Rightarrow> nat \<Rightarrow> (nat \<Rightarrow> nat \<Rightarrow> real) \<Rightarrow> matrix" where
  "ndarray n m f = Matrix m (map (\<lambda>i. map (f i) [0..<m]) [0..<n])"

text \<open>\<^verbatim>\<open>a.T\<close>\<close>

definition transposed :: "matrix \<Rightarrow> matrix" where
  "transposed a = ndarray (ncols a) (nrows a) (\<lambda>i j. entry a j i)"

text \<open>\<^verbatim>\<open>a.dot(b)\<close> for two-dimensional arrays: the inner dimensions must agree.\<close>

definition dot :: "matrix \<Rightarrow> matrix \<Rightarrow> matrix result" where
  "dot a b =
     (if ncols a = nrows b
      then Return (ndarray (nrows a) (ncols b)
                     (\<lambda>i j. sum_list (map (\<lambda>k. entry a i k * entry b k j) [0..<ncols a])))
      else Raise (ValueError ''shapes not aligned''))"

text \<open>\<^verbatim>\<open>u.dot(v)\<close> for one-dimensional arrays.\<close>

definition vdot :: "real list \<Rightarrow> real list \<Rightarrow> real result" where
  "vdot u v =
     (if length u = length v then Return (sum_list (map2 (*) u v))
      else Raise (ValueError ''shapes not aligned''))"

text \<open>\<^verbatim>\<open>a.ravel()\<close>, \<^verbatim>\<open>a.size\<close>, \<^verbatim>\<open>np.diag(a)\<close>\<close>

definition ravel :: "matrix \<Rightarrow> real list" where
  "ravel a = concat (rows a)"

definition size_of :: "matrix \<Rightarrow> nat" where
  "size_of a = nrows a * ncols a"

definition diag :: "matrix \<Rightarrow> real list" where
  "diag a = map (\<lambda>i. entry a i i) [0..<min (nrows a) (ncols a)]"

text \<open>\<^verbatim>\<open>np.linalg.norm(a)\<close>: the Frobenius norm.\<close>

definition linalg_norm :: "matrix \<Rightarrow> real" where
  "linalg_norm a = sqrt (sum_list (map (\<lambda>v. v * v) (ravel a)))"

text \<open>\<^verbatim>\<open>np.sum(a, 0)\<close> and \<^verbatim>\<open>np.mean(a, 0)\<close>: one value for each column.  The mean of
  no rows is \<^verbatim>\<open>nan\<close> in numpy; every caller below subtracts it from an array with no
  row, so it reaches no entry.\<close>

definition sum0 :: "matrix \<Rightarrow> real list" where
  "sum0 a = map (\<lambda>j. sum_list (map (\<lambda>i. entry a i j) [0..<nrows a])) [0..<ncols a]"

definition mean0 :: "matrix \<Rightarrow> real list" where
  "mean0 a = map (\<lambda>s. s / real (nrows a)) (sum0 a)"

text \<open>\<^verbatim>\<open>v[:, None]\<close> and \<^verbatim>\<open>v[None, :]\<close>\<close>

definition column :: "real list \<Rightarrow> matrix" where
  "column v = Matrix 1 (map (\<lambda>x. [x]) v)"

definition row :: "real list \<Rightarrow> matrix" where
  "row v = Matrix (length v) [v]"

text \<open>\<^verbatim>\<open>np.fill_diagonal(a, v)\<close> writes the entries \<open>(i, i)\<close> that exist.\<close>

definition fill_diagonal :: "matrix \<Rightarrow> real \<Rightarrow> matrix" where
  "fill_diagonal a v = Matrix (ncols a) (map (\<lambda>i. (rows a ! i)[i := v]) [0..<nrows a])"

subsection \<open>Broadcasting\<close>

text \<open>Two dimensions are compatible when they are equal or one of them is 1; the
  dimension of size 1 is stretched.\<close>

definition broadcast_dim :: "nat \<Rightarrow> nat \<Rightarrow> nat option" where
  "broadcast_dim p q =
     (if p = q then Some p else if p = 1 then Some q else if q = 1 then Some p else None)"

definition bentry :: "matrix \<Rightarrow> nat \<Rightarrow> nat \<Rightarrow> real" where
  "bentry a i j = entry a (if nrows a = 1 then 0 else i) (if ncols a = 1 then 0 else j)"

text \<open>\<^verbatim>\<open>np.allclose(a, b)\<close> with the default tolerances \<^verbatim>\<open>rtol=1e-05\<close>, \<^verbatim>\<open>atol=1e-08\<close>.\<close>

definition rtol :: real where
  "rtol = 1 / 100000"

definition atol :: real where
  "atol = 1 / 100000000"

definition isclose :: "real \<Rightarrow> real \<Rightarrow> bool" where
  "isclose x y = (\<bar>x - y\<bar> \<le> atol + rtol * \<bar>y\<bar>)"

definition allclose :: "matrix \<Rightarrow> matrix \<Rightarrow> bool result" where
  "allclose a b =
     (case broadcast_dim (nrows a) (nrows b) of
        None \<Rightarrow> Raise (ValueError ''operands could not be broadcast together'')
      | Some r \<Rightarrow>
          (case broadcast_dim (ncols a) (ncols b) of
             None \<Rightarrow> Raise (ValueError ''operands could not be broadcast together'')
           | Some c \<Rightarrow>
               Return (list_all (\<lambda>i. list_all (\<lambda>j. isclose (bentry a i j) (bentry b i j)) [0..<c])
                         [0..<r])))"

text \<open>The in-place \<^verbatim>\<open>a -= b\<close>: the broadcast shape must be the shape of \<open>a\<close>.\<close>

definition isub :: "matrix \<Rightarrow> matrix \<Rightarrow> matrix result" where
  "isub a b =
     (case broadcast_dim (nrows a) (nrows b) of
        None \<Rightarrow> Raise (ValueError ''operands could not be broadcast together'')
      | Some r \<Rightarrow>
          (case broadcast_dim (ncols a) (ncols b) of
             None \<Rightarrow> Raise (ValueError ''operands could not be broadcast together'')
           | Some c \<Rightarrow>
               if r = nrows a \<and> c = ncols a
               then Return (ndarray r c (\<lambda>i j. entry a i j - bentry b i j))
               else Raise (ValueError ''non-broadcastable output operand'')))"

text \<open>Division and square root of numpy floats: no exception, a non-finite value.\<close>

definition np_divide :: "real \<Rightarrow> real \<Rightarrow> real result" where
  "np_divide x y = (if y = 0 then NonFinite else Return (x / y))"

definition np_sqrt :: "real \<Rightarrow> real result" where
  "np_sqrt x = (if x < 0 then NonFinite else Return (sqrt x))"

text \<open>\<^verbatim>\<open>np.median(a)\<close> of the flattened array: the middle of the sorted entries, the
  mean of the two middle ones when their number is even.\<close>

definition median :: "real list \<Rightarrow> real" where
  "median xs =
     (let s = sort xs; k = length xs div 2
      in if odd (length xs) then s ! k else (s ! (k - 1) + s ! k) / 2)"

subsection \<open>Kernels\<close>


text \<open>
  \<^verbatim>\<open>gram_rbf\<close>.  The quotient by \<^verbatim>\<open>2 * threshold ** 2 * sq_median_distance\<close> is a
  division of arrays: where the divisor is 0 the diagonal of the result is \<^verbatim>\<open>nan\<close>.
  With no row, the median is \<^verbatim>\<open>nan\<close> and the result is the empty array.
\<close>

definition gram_rbf :: "matrix \<Rightarrow> real \<Rightarrow> matrix result" where
  "gram_rbf x threshold =
     (case dot x (transposed x) of
        Raise e \<Rightarrow> Raise e
      | NonFinite \<Rightarrow> NonFinite
      | Return dot_products \<Rightarrow>
          (let n = nrows dot_products;
               sq_norms = diag dot_products;
               sq_distances =
                 ndarray n n (\<lambda>i j. - 2 * entry dot_products i j + sq_norms ! i + sq_norms ! j);
               sq_median_distance = median (ravel sq_distances);
               d = 2 * threshold ^ 2 * sq_median_distance
           in if n = 0 then Return sq_distances
              else if d = 0 then NonFinite
              else Return (ndarray n n (\<lambda>i j. exp (- entry sq_distances i j / d)))))"

subsection \<open>Centering a Gram matrix\<close>

text \<open>
  \<^verbatim>\<open>center_gram\<close>.  In the unbiased branch \<open>n - 2\<close> and \<open>2 * (n - 1)\<close> divide numpy
  floats.  For \<open>n = 2\<close> every entry of \<^verbatim>\<open>means\<close> becomes \<^verbatim>\<open>nan\<close> and so does every entry
  off the diagonal of the result; for \<open>n = 1\<close> the only entry is overwritten by the last
  \<^verbatim>\<open>fill_diagonal\<close>.
\<close>

definition center_gram :: "matrix \<Rightarrow> bool \<Rightarrow> matrix result" where
  "center_gram gram unbiased =
     (case allclose gram (transposed gram) of
        Raise e \<Rightarrow> Raise e
      | NonFinite \<Rightarrow> NonFinite
      | Return close \<Rightarrow>
          if \<not> close then Raise (ValueError ''Input must be a symmetric matrix.'')
          else if unbiased then
            (let n = nrows gram;
                 gram0 = fill_diagonal gram 0;
                 means0 = map (\<lambda>s. s / (real n - 2)) (sum0 gram0);
                 means = map (\<lambda>m. m - sum_list means0 / (2 * (real n - 1))) means0
             in case isub gram0 (column means) of
                  Raise e \<Rightarrow> Raise e
                | NonFinite \<Rightarrow> NonFinite
                | Return gram1 \<Rightarrow>
                    (case isub gram1 (row means) of
                       Raise e \<Rightarrow> Raise e
                     | NonFinite \<Rightarrow> NonFinite
                     | Return gram2 \<Rightarrow>
                         if n = 2 then NonFinite else Return (fill_diagonal gram2 0)))
          else
            (let means0 = mean0 gram;
                 means = map (\<lambda>m. m - (sum_list means0 / real (length means0)) / 2) means0
             in case isub gram (column means) of
                  Raise e \<Rightarrow> Raise e
                | NonFinite \<Rightarrow> NonFinite
                | Return gram1 \<Rightarrow> isub gram1 (row means)))"

subsection \<open>CKA from Gram matrices\<close>

text \<open>
  \<^verbatim>\<open>cka\<close>.  Both inputs are centered before the flattened arrays are multiplied, so an
  exception of the second centering comes before the one of the product.  A centered
  array has the shape of its input, also when it holds \<^verbatim>\<open>nan\<close>.
\<close>

definition cka :: "matrix \<Rightarrow> matrix \<Rightarrow> bool \<Rightarrow> real result" where
  "cka gram_x gram_y debiased =
     (case center_gram gram_x debiased of
        Raise e \<Rightarrow> Raise e
      | cx \<Rightarrow>
          (case center_gram gram_y debiased of
             Raise e \<Rightarrow> Raise e
           | cy \<Rightarrow>
               if size_of gram_x \<noteq> size_of gram_y then Raise (ValueError ''shapes not aligned'')
               else
                 (case (cx, cy) of
                    (Return gx, Return gy) \<Rightarrow>
                      (case vdot (ravel gx) (ravel gy) of
                         Raise e \<Rightarrow> Raise e
                       | NonFinite \<Rightarrow> NonFinite
                       | Return scaled_hsic \<Rightarrow>
                           (let normalization_x = linalg_norm gx;
                                normalization_y = linalg_norm gy
                            in np_divide scaled_hsic (normalization_x * normalization_y)))
                  | _ \<Rightarrow> NonFinite)))"

subsection \<open>Linear CKA in feature space\<close>

text \<open>
  \<^verbatim>\<open>_debiased_dot_product_similarity_helper\<close>.  \<open>n\<close> is a Python int: \<^verbatim>\<open>n / (n - 2.)\<close>
  is a Python float division and raises for \<open>n = 2\<close>; the last quotient divides a numpy
  float by the int \<open>(n - 1) * (n - 2)\<close>.
\<close>

definition debiased_dot_product_similarity_helper ::
  "real \<Rightarrow> real list \<Rightarrow> real list \<Rightarrow> real \<Rightarrow> real \<Rightarrow> nat \<Rightarrow> real result" where
  "debiased_dot_product_similarity_helper xty sum_squared_rows_x sum_squared_rows_y
       squared_norm_x squared_norm_y n =
     (if real n - 2 = 0 then Raise (ZeroDivisionError ''float division by zero'')
      else
        (case vdot sum_squared_rows_x sum_squared_rows_y of
           Raise e \<Rightarrow> Raise e
         | NonFinite \<Rightarrow> NonFinite
         | Return d \<Rightarrow>
             if (real n - 1) * (real n - 2) = 0 then NonFinite
             else Return (xty - real n / (real n - 2) * d
                            + squared_norm_x * squared_norm_y / ((real n - 1) * (real n - 2)))))"

text \<open>\<^verbatim>\<open>features - np.mean(features, 0, keepdims=True)\<close>\<close>

definition center_columns :: "matrix \<Rightarrow> matrix" where
  "center_columns features =
     (let means = mean0 features
      in ndarray (nrows features) (ncols features) (\<lambda>i j. entry features i j - means ! j))"

text \<open>\<^verbatim>\<open>np.einsum('ij,ij->i', a, b)\<close>\<close>

definition einsum_ij_ij_i :: "matrix \<Rightarrow> matrix \<Rightarrow> real list" where
  "einsum_ij_ij_i a b =
     map (\<lambda>i. sum_list (map (\<lambda>j. entry a i j * entry b i j) [0..<ncols a])) [0..<nrows a]"

definition feature_space_linear_cka :: "matrix \<Rightarrow> matrix \<Rightarrow> bool \<Rightarrow> real result" where
  "feature_space_linear_cka features_x0 features_y0 debiased =
     (let features_x = center_columns features_x0;
          features_y = center_columns features_y0
      in case dot (transposed features_x) features_y of
           Raise e \<Rightarrow> Raise e
         | NonFinite \<Rightarrow> NonFinite
         | Return xty \<Rightarrow>
        (case dot (transposed features_x) features_x of
           Raise e \<Rightarrow> Raise e
         | NonFinite \<Rightarrow> NonFinite
         | Return xtx \<Rightarrow>
        (case dot (transposed features_y) features_y of
           Raise e \<Rightarrow> Raise e
         | NonFinite \<Rightarrow> NonFinite
         | Return yty \<Rightarrow>
        (let dot_product_similarity = (linalg_norm xty) ^ 2;
             normalization_x = linalg_norm xtx;
             normalization_y = linalg_norm yty
         in if debiased then
              (let n = nrows features_x;
                   sum_squared_rows_x = einsum_ij_ij_i features_x features_x;
                   sum_squared_rows_y = einsum_ij_ij_i features_y features_y;
                   squared_norm_x = sum_list sum_squared_rows_x;
                   squared_norm_y = sum_list sum_squared_rows_y
               in case debiased_dot_product_similarity_helper dot_product_similarity
                         sum_squared_rows_x sum_squared_rows_y squared_norm_x squared_norm_y n of
                    Raise e \<Rightarrow> Raise e
                  | NonFinite \<Rightarrow> NonFinite
                  | Return dps \<Rightarrow>
                 (case debiased_dot_product_similarity_helper (normalization_x ^ 2)
                         sum_squared_rows_x sum_squared_rows_x squared_norm_x squared_norm_x n of
                    Raise e \<Rightarrow> Raise e
                  | NonFinite \<Rightarrow> NonFinite
                  | Return sx \<Rightarrow>
                 (case np_sqrt sx of
                    Raise e \<Rightarrow> Raise e
                  | NonFinite \<Rightarrow> NonFinite
                  | Return nx \<Rightarrow>
                 (case debiased_dot_product_similarity_helper (normalization_y ^ 2)
                         sum_squared_rows_y sum_squared_rows_y squared_norm_y squared_norm_y n of
                    Raise e \<Rightarrow> Raise e
                  | NonFinite \<Rightarrow> NonFinite
                  | Return sy \<Rightarrow>
                 (case np_sqrt sy of
                    Raise e \<Rightarrow> Raise e
                  | NonFinite \<Rightarrow> NonFinite
                  | Return ny \<Rightarrow> np_divide dps (nx * ny))))))
            else np_divide dot_product_similarity (normalization_x * normalization_y)))))"

subsection \<open>CCA\<close>

text \<open>
  \<^verbatim>\<open>cca\<close>.  \<^verbatim>\<open>np.linalg.qr\<close> belongs to numpy, not to the notebook: the function that
  gives the factor \<open>Q\<close> of a feature matrix is the parameter \<open>qr\<close>.
\<close>

definition cca :: "(matrix \<Rightarrow> matrix) \<Rightarrow> matrix \<Rightarrow> matrix \<Rightarrow> real result" where
  "cca qr features_x features_y =
     (let qx = qr features_x;
          qy = qr features_y
      in case dot (transposed qx) qy of
           Raise e \<Rightarrow> Raise e
         | NonFinite \<Rightarrow> NonFinite
         | Return m \<Rightarrow>
             np_divide ((linalg_norm m) ^ 2) (real (min (ncols features_x) (ncols features_y))))"

subsection \<open>Shapes and symmetry\<close>

definition is_square :: "nat \<Rightarrow> matrix \<Rightarrow> bool" where
  "is_square n a = (wf_matrix a \<and> nrows a = n \<and> ncols a = n)"

definition is_symmetric :: "matrix \<Rightarrow> bool" where
  "is_symmetric a =
     list_all (\<lambda>i. list_all (\<lambda>j. entry a i j = entry a j i) [0..<ncols a]) [0..<nrows a]"

text \<open>Symmetry within the tolerance of \<^verbatim>\<open>np.allclose\<close>, written out:
  \<open>\<bar>a[i,j] - a[j,i]\<bar> \<le> 1e-8 + 1e-5 * \<bar>a[j,i]\<bar>\<close> at every index pair.\<close>

definition symmetric_within_tolerance :: "matrix \<Rightarrow> bool" where
  "symmetric_within_tolerance a =
     list_all (\<lambda>i. list_all (\<lambda>j.
         \<bar>entry a i j - entry a j i\<bar> \<le> 1 / 100000000 + 1 / 100000 * \<bar>entry a j i\<bar>)
       [0..<ncols a]) [0..<nrows a]"

subsection \<open>The centering steps, as the specification words them\<close>

text \<open>The vector subtracted by the biased centering: the column means, less half of
  their own mean.\<close>

definition biased_means :: "matrix \<Rightarrow> nat \<Rightarrow> real" where
  "biased_means g j =
     (let n = nrows g;
          m = (\<lambda>j. (\<Sum>i<n. entry g i j) / real n)
      in m j - (\<Sum>k<n. m k) / real n / 2)"

text \<open>
  The unbiased centering in the specification's words: zero the diagonal, take
  \<open>means[j] = sum_i G[i,j] / (N - 2)\<close>, subtract \<open>sum(means) / (2 (N - 1))\<close> from every
  entry of \<open>means\<close>, subtract \<open>means\<close> from every row and from every column, and zero
  the diagonal again.
\<close>

definition unbiased_means :: "matrix \<Rightarrow> nat \<Rightarrow> real" where
  "unbiased_means g j =
     (let n = nrows g;
          g0 = (\<lambda>i j. if i = j then 0 else entry g i j);
          means = (\<lambda>j. (\<Sum>i<n. g0 i j) / (real n - 2))
      in means j - (\<Sum>k<n. means k) / (2 * (real n - 1)))"

definition unbiased_centering_steps :: "matrix \<Rightarrow> matrix" where
  "unbiased_centering_steps g =
     (let n = nrows g;
          g0 = (\<lambda>i j. if i = j then 0 else entry g i j);
          means = unbiased_means g;
          g1 = (\<lambda>i j. g0 i j - means j);
          g2 = (\<lambda>i j. g1 i j - means i)
      in ndarray n n (\<lambda>i j. if i = j then 0 else g2 i j))"

subsection \<open>The feature-space quantities, as the specification words them\<close>

text \<open>The column-centered features, and the squared Frobenius norm of the product of
  one centered feature matrix, transposed, with another.\<close>

definition centered_feature :: "matrix \<Rightarrow> nat \<Rightarrow> nat \<Rightarrow> real" where
  "centered_feature x i a = entry x i a - (\<Sum>k<nrows x. entry x k a) / real (nrows x)"

definition cross_similarity :: "matrix \<Rightarrow> matrix \<Rightarrow> real" where
  "cross_similarity x y =
     (\<Sum>a<ncols x. \<Sum>b<ncols y. (\<Sum>i<nrows x. centered_feature x i a * centered_feature y i b)\<^sup>2)"

text \<open>\<open>ssr_x[i] = sum_j X[i,j]\<^sup>2\<close> over the column-centered features.\<close>

definition sum_squared_rows :: "matrix \<Rightarrow> real list" where
  "sum_squared_rows x = map (\<lambda>i. \<Sum>j<ncols x. (centered_feature x i j)\<^sup>2) [0..<nrows x]"

text \<open>\<open>raw - n/(n-2) \<cdot> (ssr_x \<cdot> ssr_y) + sq_norm_x \<cdot> sq_norm_y / ((n-1)(n-2))\<close>\<close>

definition debiased_formula ::
  "real \<Rightarrow> real list \<Rightarrow> real list \<Rightarrow> real \<Rightarrow> real \<Rightarrow> nat \<Rightarrow> real" where
  "debiased_formula raw ssr_x ssr_y sq_norm_x sq_norm_y n =
     raw - real n / (real n - 2) * (\<Sum>i<length ssr_x. ssr_x ! i * ssr_y ! i)
       + sq_norm_x * sq_norm_y / ((real n - 1) * (real n - 2))"

text \<open>The debiased score: the formula corrects the cross term and both
  self-similarities, whose square roots normalise.\<close>

definition debiased_linear_cka_formula :: "matrix \<Rightarrow> matrix \<Rightarrow> real result" where
  "debiased_linear_cka_formula x y =
     (let n = nrows x;
          ssr_x = sum_squared_rows x;
          ssr_y = sum_squared_rows y;
          sq_norm_x = sum_list ssr_x;
          sq_norm_y = sum_list ssr_y;
          cross = debiased_formula (cross_similarity x y) ssr_x ssr_y sq_norm_x sq_norm_y n;
          self_x = debiased_formula (cross_similarity x x) ssr_x ssr_x sq_norm_x sq_norm_x n;
          self_y = debiased_formula (cross_similarity y y) ssr_y ssr_y sq_norm_y sq_norm_y n
      in case np_sqrt self_x of
           Raise e \<Rightarrow> Raise e
         | NonFinite \<Rightarrow> NonFinite
         | Return normalization_x \<Rightarrow>
             (case np_sqrt self_y of
                Raise e \<Rightarrow> Raise e
              | NonFinite \<Rightarrow> NonFinite
              | Return normalization_y \<Rightarrow> np_divide cross (normalization_x * normalization_y)))"

subsection \<open>The RBF kernel, as the specification words it\<close>

text \<open>\<open>d\<^sup>2(i,j) = g(i,i) - 2 g(i,j) + g(j,j)\<close> with \<open>g = X X\<^sup>T\<close>; the bandwidth
  \<open>\<sigma>\<^sup>2 = threshold\<^sup>2 \<times> median(d\<^sup>2)\<close> over all \<open>N\<^sup>2\<close> entries; the kernel
  \<open>exp(- d\<^sup>2 / (2 \<sigma>\<^sup>2))\<close>.\<close>

definition sq_distance :: "matrix \<Rightarrow> nat \<Rightarrow> nat \<Rightarrow> real" where
  "sq_distance x i j =
     (let g = (\<lambda>i j. \<Sum>k<ncols x. entry x i k * entry x j k)
      in g i i - 2 * g i j + g j j)"

definition all_sq_distances :: "matrix \<Rightarrow> real list" where
  "all_sq_distances x =
     concat (map (\<lambda>i. map (\<lambda>j. sq_distance x i j) [0..<nrows x]) [0..<nrows x])"

definition bandwidth :: "matrix \<Rightarrow> real \<Rightarrow> real" where
  "bandwidth x threshold = threshold\<^sup>2 * median (all_sq_distances x)"

definition rbf_kernel_spec :: "matrix \<Rightarrow> real \<Rightarrow> matrix" where
  "rbf_kernel_spec x threshold =
     ndarray (nrows x) (nrows x)
       (\<lambda>i j. exp (- sq_distance x i j / (2 * bandwidth x threshold)))"

subsection \<open>The Gram matrix of the centered features\<close>

text \<open>
  Three index functions that the comparison of \<^verbatim>\<open>feature_space_linear_cka\<close> with
  \<^verbatim>\<open>cka\<close> goes through: the linear Gram matrix of the features, the one of the
  column-centered features, and the latter's U-centered form.
\<close>

definition linear_gram :: "matrix \<Rightarrow> nat \<Rightarrow> nat \<Rightarrow> real" where
  "linear_gram x i j = (\<Sum>a<ncols x. entry x i a * entry x j a)"





section \<open>Sums over index ranges\<close>










section \<open>Arrays as index functions\<close>

lemma sum_list_upt: "sum_list (map f [0..<n]) = (\<Sum>i<n. f i)"
  by (induction n) simp_all

lemma nrows_ndarray: "nrows (ndarray n m f) = n"
  by (simp add: nrows_def ndarray_def)

lemma ncols_ndarray: "ncols (ndarray n m f) = m"
  by (simp add: ndarray_def)

lemma entry_ndarray: "i < n \<Longrightarrow> j < m \<Longrightarrow> entry (ndarray n m f) i j = f i j"
  by (simp add: entry_def ndarray_def)

lemma wf_ndarray: "wf_matrix (ndarray n m f)"
  by (simp add: wf_matrix_def ndarray_def list_all_iff)

lemma ndarray_cong:
  "(\<And>i j. i < n \<Longrightarrow> j < m \<Longrightarrow> f i j = g i j) \<Longrightarrow> ndarray n m f = ndarray n m g"
  by (simp add: ndarray_def)

lemma matrix_as_ndarray:
  assumes "wf_matrix a"
  shows "a = ndarray (nrows a) (ncols a) (entry a)"
proof -
  have "rows a = map (\<lambda>i. map (entry a i) [0..<ncols a]) [0..<nrows a]"
  proof (rule nth_equalityI)
    show "length (rows a) = length (map (\<lambda>i. map (entry a i) [0..<ncols a]) [0..<nrows a])"
      by (simp add: nrows_def)
  next
    fix i assume i: "i < length (rows a)"
    then have len: "length (rows a ! i) = ncols a"
      using assms by (simp add: wf_matrix_def list_all_length)
    have "rows a ! i = map (entry a i) [0..<ncols a]"
      by (rule nth_equalityI) (simp_all add: len entry_def)
    with i show "rows a ! i = map (\<lambda>i. map (entry a i) [0..<ncols a]) [0..<nrows a] ! i"
      by (simp add: nrows_def)
  qed
  then show ?thesis
    by (cases a) (simp add: ndarray_def)
qed

lemma sum_list_ravel_ndarray:
  "sum_list (map g (ravel (ndarray n m f))) = (\<Sum>i<n. \<Sum>j<m. g (f i j))"
proof -
  have "sum_list (map g (concat (map (\<lambda>i. map (f i) [0..<m]) [0..<n])))
        = sum_list (map (\<lambda>i. sum_list (map (\<lambda>j. g (f i j)) [0..<m])) [0..<n])"
    by (induction n) (simp_all add: comp_def)
  then show ?thesis
    by (simp add: ravel_def ndarray_def sum_list_upt)
qed

lemma sum_list_map2_ravel_ndarray:
  "sum_list (map2 (*) (ravel (ndarray n m f)) (ravel (ndarray n m g)))
   = (\<Sum>i<n. \<Sum>j<m. f i j * g i j)"
proof -
  have len: "length (concat (map (\<lambda>i. map (h i) [0..<m]) [0..<k])) = k * m"
    for h :: "nat \<Rightarrow> nat \<Rightarrow> real" and k
    by (induction k) simp_all
  have row: "map2 (*) (map (f i) [0..<m]) (map (g i) [0..<m]) = map (\<lambda>j. f i j * g i j) [0..<m]" for i
    by (simp add: zip_map_map map_zip_map  zip_same_conv_map comp_def)
  have "map2 (*) (concat (map (\<lambda>i. map (f i) [0..<m]) [0..<n]))
                 (concat (map (\<lambda>i. map (g i) [0..<m]) [0..<n]))
        = concat (map (\<lambda>i. map (\<lambda>j. f i j * g i j) [0..<m]) [0..<n])"
    by (induction n) (simp_all add: row len)
  then have "sum_list (map2 (*) (ravel (ndarray n m f)) (ravel (ndarray n m g)))
        = sum_list (map (\<lambda>x. x) (ravel (ndarray n m (\<lambda>i j. f i j * g i j))))"
    by (simp add: ravel_def ndarray_def)
  then show ?thesis
    by (simp only: sum_list_ravel_ndarray)
qed

lemma length_ravel_ndarray: "length (ravel (ndarray n m f)) = n * m"
  by (induction n) (simp_all add: ravel_def ndarray_def)

lemma fill_diagonal_ndarray:
  assumes "wf_matrix a"
  shows "fill_diagonal a v = ndarray (nrows a) (ncols a) (\<lambda>i j. if i = j then v else entry a i j)"
proof -
  have "(rows a ! i)[i := v] = map (\<lambda>j. if i = j then v else entry a i j) [0..<ncols a]"
    if "i < nrows a" for i
  proof -
    have len: "length (rows a ! i) = ncols a"
      using assms that by (simp add: wf_matrix_def list_all_length nrows_def)
    show ?thesis
      by (rule nth_equalityI) (auto simp: len entry_def nth_list_update)
  qed
  then show ?thesis
    by (simp add: fill_diagonal_def ndarray_def)
qed

section \<open>What \<^verbatim>\<open>center_gram\<close> computes on a square matrix\<close>

lemma list_all_upt: "list_all P [0..<n] \<longleftrightarrow> (\<forall>i<n. P i)"
  by (auto simp: list_all_iff)

lemma entry_transposed: "i < ncols a \<Longrightarrow> j < nrows a \<Longrightarrow> entry (transposed a) i j = entry a j i"
  by (simp add: transposed_def entry_ndarray)

lemma nrows_transposed: "nrows (transposed a) = ncols a"
  by (simp add: transposed_def nrows_ndarray)

lemma ncols_transposed: "ncols (transposed a) = nrows a"
  by (simp add: transposed_def ncols_ndarray)

lemma broadcast_dim_same: "broadcast_dim n n = Some n"
  by (simp add: broadcast_dim_def)

lemma broadcast_dim_one: "broadcast_dim n (Suc 0) = Some n"
  by (simp add: broadcast_dim_def)

lemma allclose_square:
  assumes "is_square n g"
  shows "allclose g (transposed g) = Return (symmetric_within_tolerance g)"
proof -
  have shape: "nrows g = n" "ncols g = n"
    using assms by (simp_all add: is_square_def)
  have "isclose (bentry g i j) (bentry (transposed g) i j)
        \<longleftrightarrow> \<bar>entry g i j - entry g j i\<bar> \<le> 1 / 100000000 + 1 / 100000 * \<bar>entry g j i\<bar>"
    if "i < n" "j < n" for i j
    using that
    by (auto simp: isclose_def bentry_def shape nrows_transposed ncols_transposed
        entry_transposed atol_def rtol_def)
  then show ?thesis
    by (simp add: allclose_def shape nrows_transposed ncols_transposed broadcast_dim_same
        symmetric_within_tolerance_def list_all_upt)
qed

lemma isub_column:
  assumes "nrows a = length v"
  shows "isub a (column v) = Return (ndarray (nrows a) (ncols a) (\<lambda>i j. entry a i j - v ! i))"
proof -
  have "bentry (column v) i j = v ! i" if "i < length v" for i j
    using that by (auto simp: bentry_def column_def nrows_def entry_def)
  then have "ndarray (length v) (ncols a) (\<lambda>i j. entry a i j - bentry (column v) i j)
      = ndarray (length v) (ncols a) (\<lambda>i j. entry a i j - v ! i)"
    by (intro ndarray_cong) simp
  moreover have "nrows (column v) = length v" "ncols (column v) = 1"
    by (simp_all add: column_def nrows_def)
  ultimately show ?thesis
    by (simp add: isub_def assms broadcast_dim_same broadcast_dim_one)
qed

lemma isub_row:
  assumes "ncols a = length v"
  shows "isub a (row v) = Return (ndarray (nrows a) (ncols a) (\<lambda>i j. entry a i j - v ! j))"
proof -
  have "bentry (row v) i j = v ! j" if "j < length v" for i j
    using that by (auto simp: bentry_def row_def nrows_def entry_def)
  then have "ndarray (nrows a) (length v) (\<lambda>i j. entry a i j - bentry (row v) i j)
      = ndarray (nrows a) (length v) (\<lambda>i j. entry a i j - v ! j)"
    by (intro ndarray_cong) simp
  moreover have "nrows (row v) = 1" "ncols (row v) = length v"
    by (simp_all add: row_def nrows_def)
  ultimately show ?thesis
    by (simp add: isub_def assms broadcast_dim_same broadcast_dim_one)
qed

lemma length_sum0: "length (sum0 a) = ncols a"
  by (simp add: sum0_def)

lemma nth_sum0: "j < ncols a \<Longrightarrow> sum0 a ! j = (\<Sum>i<nrows a. entry a i j)"
  by (simp add: sum0_def sum_list_upt)

lemma sum_list_nth: "sum_list xs = (\<Sum>i<length xs. xs ! i)"
  by (metis atLeast0LessThan sum_list_sum_nth)

lemma center_gram_biased_square:
  assumes "is_square n g"
  shows "center_gram g False =
     (if symmetric_within_tolerance g
      then Return (ndarray n n (\<lambda>i j. entry g i j - biased_means g i - biased_means g j))
      else Raise (ValueError ''Input must be a symmetric matrix.''))"
proof -
  have shape: "nrows g = n" "ncols g = n"
    using assms by (simp_all add: is_square_def)
  define means0 where "means0 = mean0 g"
  define means where "means = map (\<lambda>m. m - (sum_list means0 / real (length means0)) / 2) means0"
  have len: "length means0 = n" "length means = n"
    by (simp_all add: means_def means0_def mean0_def length_sum0 shape)
  have m0: "means0 ! j = (\<Sum>i<n. entry g i j) / real n" if "j < n" for j
    using that by (simp add: means0_def mean0_def length_sum0 nth_sum0 shape)
  have "sum_list means0 = (\<Sum>k<n. (\<Sum>i<n. entry g i k) / real n)"
    by (simp add: sum_list_nth len m0)
  then have m: "means ! j = biased_means g j" if "j < n" for j
    using that by (simp add: means_def len m0 biased_means_def shape Let_def)
  have "center_gram g False =
     (if symmetric_within_tolerance g
      then (case isub g (column means) of
                  Raise e \<Rightarrow> Raise e
                | NonFinite \<Rightarrow> NonFinite
                | Return gram1 \<Rightarrow> isub gram1 (row means))
      else Raise (ValueError ''Input must be a symmetric matrix.''))"
    unfolding center_gram_def allclose_square[OF assms] Let_def means_def means0_def result.case
    by simp
  also have "(case isub g (column means) of
                  Raise e \<Rightarrow> Raise e
                | NonFinite \<Rightarrow> NonFinite
                | Return gram1 \<Rightarrow> isub gram1 (row means))
     = Return (ndarray n n (\<lambda>i j. entry g i j - biased_means g i - biased_means g j))"
    by (simp add: isub_column isub_row shape len nrows_ndarray ncols_ndarray)
       (rule ndarray_cong, simp add: entry_ndarray m)
  finally show ?thesis .
qed

lemma center_gram_unbiased_square:
  assumes "is_square n g"
  shows "center_gram g True =
     (if symmetric_within_tolerance g
      then (if n = 2 then NonFinite else Return (unbiased_centering_steps g))
      else Raise (ValueError ''Input must be a symmetric matrix.''))"
proof -
  have shape: "nrows g = n" "ncols g = n" and wf: "wf_matrix g"
    using assms by (simp_all add: is_square_def)
  define gram0 where "gram0 = fill_diagonal g 0"
  define means0 where "means0 = map (\<lambda>s. s / (real n - 2)) (sum0 gram0)"
  define means where "means = map (\<lambda>m. m - sum_list means0 / (2 * (real n - 1))) means0"
  have g0: "gram0 = ndarray n n (\<lambda>i j. if i = j then 0 else entry g i j)"
    by (simp add: gram0_def fill_diagonal_ndarray[OF wf] shape)
  have shape0: "nrows gram0 = n" "ncols gram0 = n"
    by (simp_all add: g0 nrows_ndarray ncols_ndarray)
  have len: "length means0 = n" "length means = n"
    by (simp_all add: means_def means0_def length_sum0 shape0)
  have m0: "means0 ! j = (\<Sum>i<n. if i = j then 0 else entry g i j) / (real n - 2)" if "j < n" for j
    using that by (simp add: means0_def length_sum0 nth_sum0 shape0) (simp add: g0 entry_ndarray)
  have "sum_list means0 = (\<Sum>k<n. (\<Sum>i<n. if i = k then 0 else entry g i k) / (real n - 2))"
    by (simp add: sum_list_nth len m0)
  then have m: "means ! j = unbiased_means g j" if "j < n" for j
    using that by (simp add: means_def len m0 unbiased_means_def shape Let_def)
  have "center_gram g True =
     (if symmetric_within_tolerance g
      then (case isub gram0 (column means) of
                  Raise e \<Rightarrow> Raise e
                | NonFinite \<Rightarrow> NonFinite
                | Return gram1 \<Rightarrow>
                    (case isub gram1 (row means) of
                       Raise e \<Rightarrow> Raise e
                     | NonFinite \<Rightarrow> NonFinite
                     | Return gram2 \<Rightarrow>
                         if n = 2 then NonFinite else Return (fill_diagonal gram2 0)))
      else Raise (ValueError ''Input must be a symmetric matrix.''))"
    unfolding center_gram_def allclose_square[OF assms] Let_def means_def means0_def gram0_def
      result.case shape
    by simp
  also have "(case isub gram0 (column means) of
                  Raise e \<Rightarrow> Raise e
                | NonFinite \<Rightarrow> NonFinite
                | Return gram1 \<Rightarrow>
                    (case isub gram1 (row means) of
                       Raise e \<Rightarrow> Raise e
                     | NonFinite \<Rightarrow> NonFinite
                     | Return gram2 \<Rightarrow>
                         if n = 2 then NonFinite else Return (fill_diagonal gram2 0)))
     = (if n = 2 then NonFinite else Return (unbiased_centering_steps g))"
    apply (simp add: isub_column isub_row shape0 len nrows_ndarray ncols_ndarray
        fill_diagonal_ndarray[OF wf_ndarray] unbiased_centering_steps_def shape Let_def)
    apply (rule impI)
    apply (rule ndarray_cong)
    apply (simp add: entry_ndarray m g0)
    done
  finally show ?thesis .
qed

lemma is_symmetric_iff:
  "is_symmetric a \<longleftrightarrow> (\<forall>i<nrows a. \<forall>j<ncols a. entry a i j = entry a j i)"
  by (simp add: is_symmetric_def list_all_upt)

lemma symmetric_within_tolerance_iff:
  "symmetric_within_tolerance a \<longleftrightarrow>
     (\<forall>i<nrows a. \<forall>j<ncols a.
        \<bar>entry a i j - entry a j i\<bar> \<le> 1 / 100000000 + 1 / 100000 * \<bar>entry a j i\<bar>)"
  by (simp add: symmetric_within_tolerance_def list_all_upt)

lemma symmetric_imp_within_tolerance:
  "is_symmetric a \<Longrightarrow> symmetric_within_tolerance a"
  unfolding is_symmetric_iff symmetric_within_tolerance_iff
proof (intro allI impI)
  fix i j
  assume "\<forall>i<nrows a. \<forall>j<ncols a. entry a i j = entry a j i" and "i < nrows a" and "j < ncols a"
  then have "entry a i j = entry a j i"
    by blast
  then have "entry a i j - entry a j i = 0"
    by simp
  moreover have "0 \<le> 1 / 100000 * \<bar>entry a j i\<bar>"
    by simp
  ultimately show "\<bar>entry a i j - entry a j i\<bar> \<le> 1 / 100000000 + 1 / 100000 * \<bar>entry a j i\<bar>"
    by linarith
qed

lemma is_square_ndarray: "is_square n (ndarray n n f)"
  by (simp add: is_square_def wf_ndarray nrows_ndarray ncols_ndarray)

lemma is_symmetric_ndarray:
  "(\<And>i j. i < n \<Longrightarrow> j < n \<Longrightarrow> f i j = f j i) \<Longrightarrow> is_symmetric (ndarray n n f)"
  by (simp add: is_symmetric_iff nrows_ndarray ncols_ndarray entry_ndarray)

section \<open>Claims about \<^verbatim>\<open>center_gram\<close>\<close>

text \<open>
  Claim C2.  For a symmetric \<open>N \<times> N\<close> matrix with \<open>N \<ge> 3\<close>, \<^verbatim>\<open>center_gram\<close> with
  \<^verbatim>\<open>unbiased=True\<close> returns the matrix obtained by the steps of the specification:
  zero the diagonal, \<open>means[j] = sum_i G[i,j] / (N - 2)\<close>, subtract
  \<open>sum(means) / (2 (N - 1))\<close> from every entry of \<open>means\<close>, subtract \<open>means\<close> from
  every row and from every column, zero the diagonal again.
\<close>

theorem center_gram_unbiased_steps:
  assumes "is_square n g" and "3 \<le> n" and "is_symmetric g"
  shows "center_gram g True = Return (unbiased_centering_steps g)"
  using assms
  by (simp add: center_gram_unbiased_square symmetric_imp_within_tolerance)

text \<open>The steps at a \<open>3 \<times> 3\<close> symmetric matrix.\<close>

theorem center_gram_unbiased_steps_witness:
  "is_square 3 (Matrix 3 [[1, 2, 3], [2, 5, 6], [3, 6, 9]]) \<and> (3::nat) \<le> 3
   \<and> is_symmetric (Matrix 3 [[1, 2, 3], [2, 5, 6], [3, 6, 9]])
   \<and> center_gram (Matrix 3 [[1, 2, 3], [2, 5, 6], [3, 6, 9]]) True
       = Return (unbiased_centering_steps (Matrix 3 [[1, 2, 3], [2, 5, 6], [3, 6, 9]]))"
proof -
  have sq: "is_square 3 (Matrix 3 [[1, 2, 3], [2, 5, 6], [3, 6, 9]])"
    by (simp add: is_square_def wf_matrix_def nrows_def)
  have sym: "is_symmetric (Matrix 3 [[1, 2, 3], [2, 5, 6], [3, 6, 9]])"
    by (simp add: is_symmetric_def nrows_def entry_def upt_conv_Cons)
  show ?thesis
    using sq sym center_gram_unbiased_steps [OF sq _ sym] by simp
qed

text \<open>
  Claim C9.  \<^verbatim>\<open>center_gram\<close> preserves symmetry: for a symmetric \<open>N \<times> N\<close> matrix
  (\<open>N \<ge> 3\<close> in the unbiased mode) it returns a matrix, of the same shape, that is
  symmetric, in both modes.
\<close>

theorem center_gram_preserves_symmetry:
  assumes "is_square n g" and "is_symmetric g" and "unbiased \<longrightarrow> 3 \<le> n"
  shows "\<exists>c. center_gram g unbiased = Return c \<and> is_square n c \<and> is_symmetric c"
proof -
  have shape: "nrows g = n" "ncols g = n"
    using assms(1) by (simp_all add: is_square_def)
  have sym: "entry g i j = entry g j i" if "i < n" "j < n" for i j
    using assms(2) that by (simp add: is_symmetric_iff shape)
  have tol: "symmetric_within_tolerance g"
    using assms(2) by (rule symmetric_imp_within_tolerance)
  show ?thesis
  proof (cases unbiased)
    case True
    then have "center_gram g unbiased = Return (unbiased_centering_steps g)"
      using assms by (simp add: center_gram_unbiased_square tol)
    moreover have "is_square n (unbiased_centering_steps g)"
      by (simp add: unbiased_centering_steps_def Let_def shape is_square_ndarray)
    moreover have "is_symmetric (unbiased_centering_steps g)"
      unfolding unbiased_centering_steps_def Let_def shape
      by (rule is_symmetric_ndarray) (simp add: sym)
    ultimately show ?thesis by blast
  next
    case False
    then have "center_gram g unbiased
        = Return (ndarray n n (\<lambda>i j. entry g i j - biased_means g i - biased_means g j))"
      using assms(1) by (simp add: center_gram_biased_square tol)
    moreover have "is_symmetric (ndarray n n (\<lambda>i j. entry g i j - biased_means g i - biased_means g j))"
      by (rule is_symmetric_ndarray) (simp add: sym)
    ultimately show ?thesis
      using is_square_ndarray by blast
  qed
qed

text \<open>A symmetric \<open>3 \<times> 3\<close> matrix in the unbiased mode.\<close>

theorem center_gram_preserves_symmetry_witness:
  "is_square 3 (Matrix 3 [[1, 2, 3], [2, 5, 6], [3, 6, 9]])
   \<and> is_symmetric (Matrix 3 [[1, 2, 3], [2, 5, 6], [3, 6, 9]])
   \<and> (3::nat) \<le> 3
   \<and> (\<exists>c. center_gram (Matrix 3 [[1, 2, 3], [2, 5, 6], [3, 6, 9]]) True = Return c
          \<and> is_square 3 c \<and> is_symmetric c)"
proof -
  have sq: "is_square 3 (Matrix 3 [[1, 2, 3], [2, 5, 6], [3, 6, 9]])"
    by (simp add: is_square_def wf_matrix_def nrows_def)
  have sym: "is_symmetric (Matrix 3 [[1, 2, 3], [2, 5, 6], [3, 6, 9]])"
    by (simp add: is_symmetric_def nrows_def entry_def upt_conv_Cons)
  show ?thesis
    using sq sym center_gram_preserves_symmetry [OF sq sym, of True] by simp
qed

text \<open>
  Claim C3, as amended.  On a square matrix \<^verbatim>\<open>center_gram\<close> raises
  \<^verbatim>\<open>ValueError('Input must be a symmetric matrix.')\<close> exactly when the matrix is not
  symmetric within the tolerance of \<^verbatim>\<open>np.allclose\<close>, it raises nothing else, and it
  never symmetrizes: whatever it returns has the antisymmetric part of its input,
  \<open>out[i,j] - out[j,i] = G[i,j] - G[j,i]\<close>.
\<close>

theorem center_gram_rejects_asymmetry:
  assumes "is_square n g"
  shows "(\<not> symmetric_within_tolerance g \<longrightarrow>
            center_gram g unbiased = Raise (ValueError ''Input must be a symmetric matrix.''))
       \<and> (symmetric_within_tolerance g \<longrightarrow> (\<forall>e. center_gram g unbiased \<noteq> Raise e))
       \<and> (\<forall>c. center_gram g unbiased = Return c \<longrightarrow>
            (\<forall>i<n. \<forall>j<n. entry c i j - entry c j i = entry g i j - entry g j i))"
proof (cases unbiased)
  case True
  have shape: "nrows g = n"
    using assms by (simp add: is_square_def)
  have "entry (unbiased_centering_steps g) i j - entry (unbiased_centering_steps g) j i
      = entry g i j - entry g j i" if "i < n" "j < n" for i j
    using that by (simp add: unbiased_centering_steps_def Let_def shape entry_ndarray)
  with True show ?thesis
    by (auto simp: center_gram_unbiased_square[OF assms] split: if_splits)
next
  case False
  have "entry (ndarray n n (\<lambda>i j. entry g i j - biased_means g i - biased_means g j)) i j
      - entry (ndarray n n (\<lambda>i j. entry g i j - biased_means g i - biased_means g j)) j i
      = entry g i j - entry g j i" if "i < n" "j < n" for i j
    using that by (simp add: entry_ndarray)
  with False show ?thesis
    by (auto simp: center_gram_biased_square[OF assms] split: if_splits)
qed

text \<open>A matrix that is not symmetric is rejected, here in the unbiased mode; one that is
  symmetric only within the tolerance is centered, and keeps its asymmetry of \<open>10\<^sup>-\<^sup>6\<close>.\<close>

theorem center_gram_rejects_asymmetry_witness:
  "is_square 2 (Matrix 2 [[0, 1], [0, 0]])
   \<and> \<not> symmetric_within_tolerance (Matrix 2 [[0, 1], [0, 0]])
   \<and> center_gram (Matrix 2 [[0, 1], [0, 0]]) True
       = Raise (ValueError ''Input must be a symmetric matrix.'')
   \<and> is_square 2 (Matrix 2 [[1, 2], [2 + 1 / 1000000, 1]])
   \<and> symmetric_within_tolerance (Matrix 2 [[1, 2], [2 + 1 / 1000000, 1]])
   \<and> (\<exists>c. center_gram (Matrix 2 [[1, 2], [2 + 1 / 1000000, 1]]) False = Return c
          \<and> entry c 0 1 - entry c 1 0 = - (1 / 1000000))"
proof -
  let ?a = "Matrix 2 [[0, 1], [0, 0]]"
  let ?b = "Matrix 2 [[1, 2], [2 + 1 / 1000000, 1]]"
  have sq: "is_square 2 ?a" "is_square 2 ?b"
    by (simp_all add: is_square_def wf_matrix_def nrows_def)
  have asym: "\<not> symmetric_within_tolerance ?a"
    by (simp add: symmetric_within_tolerance_def nrows_def entry_def upt_conv_Cons)
  have sym: "symmetric_within_tolerance ?b"
    by (simp add: symmetric_within_tolerance_def nrows_def entry_def upt_conv_Cons)
  obtain c where c: "center_gram ?b False = Return c"
    using center_gram_biased_square[OF sq(2)] sym by simp
  have "(0::nat) < 2" "(1::nat) < 2"
    by simp_all
  then have "entry c 0 1 - entry c 1 0 = entry ?b 0 1 - entry ?b 1 0"
    using center_gram_rejects_asymmetry [OF sq(2), of False] c by blast
  then have "entry c 0 1 - entry c 1 0 = - (1 / 1000000)"
    by (simp add: entry_def)
  with c have "\<exists>c. center_gram ?b False = Return c \<and> entry c 0 1 - entry c 1 0 = - (1 / 1000000)"
    by blast
  then show ?thesis
    using sq asym sym center_gram_rejects_asymmetry [OF sq(1), of True] by simp
qed

text \<open>
  Claim C3 as it is worded names the error \<^verbatim>\<open>NotSymmetricError\<close>.  The exception raised
  for the matrix \<open>[[0, 1], [0, 0]]\<close> is a \<^verbatim>\<open>ValueError\<close>; the notebook defines no
  exception class of its own.
\<close>

theorem center_gram_error_name_counterexample:
  "center_gram (Matrix 2 [[0, 1], [0, 0]]) False
     = Raise (ValueError ''Input must be a symmetric matrix.'')
   \<and> exception_name (ValueError ''Input must be a symmetric matrix.'') \<noteq> ''NotSymmetricError''"
  by (simp add: center_gram_def allclose_def broadcast_dim_def nrows_def transposed_def
      ndarray_def isclose_def bentry_def entry_def atol_def rtol_def upt_conv_Cons)

section \<open>Claims about \<^verbatim>\<open>cka\<close>\<close>

lemma map2_same: "map2 f xs xs = map (\<lambda>x. f x x) xs"
  by (induction xs) simp_all

text \<open>
  Claim C7.  When the biased centering of \<open>G\<close> returns a matrix of nonzero Frobenius
  norm, \<^verbatim>\<open>cka(G, G, debiased=False)\<close> is exactly 1.
\<close>

theorem cka_self_similarity:
  assumes "center_gram g False = Return c" and "linalg_norm c \<noteq> 0"
  shows "cka g g False = Return 1"
proof -
  define s where "s = sum_list (map (\<lambda>v. v * v) (ravel c))"
  have nonneg: "0 \<le> s"
    unfolding s_def by (rule sum_list_nonneg) auto
  have norm: "linalg_norm c = sqrt s"
    by (simp add: linalg_norm_def s_def)
  with assms(2) have "s \<noteq> 0"
    by auto
  have "vdot (ravel c) (ravel c) = Return s"
    by (simp add: vdot_def map2_same s_def)
  then have "cka g g False = np_divide s (sqrt s * sqrt s)"
    by (simp add: cka_def assms(1) norm)
  also have "\<dots> = Return 1"
    using nonneg \<open>s \<noteq> 0\<close> by (simp add: np_divide_def)
  finally show ?thesis .
qed

text \<open>The \<open>2 \<times> 2\<close> identity matrix: its centered form has norm 1.\<close>

theorem cka_self_similarity_witness:
  "center_gram (Matrix 2 [[1, 0], [0, 1]]) False = Return (Matrix 2 [[1 / 2, - 1 / 2], [- 1 / 2, 1 / 2]])
   \<and> linalg_norm (Matrix 2 [[1 / 2, - 1 / 2], [- 1 / 2, 1 / 2]]) \<noteq> 0
   \<and> cka (Matrix 2 [[1, 0], [0, 1]]) (Matrix 2 [[1, 0], [0, 1]]) False = Return 1"
proof -
  have c: "center_gram (Matrix 2 [[1, 0], [0, 1]]) False
      = Return (Matrix 2 [[1 / 2, - 1 / 2], [- 1 / 2, 1 / 2]])"
    by (simp add: center_gram_def allclose_def broadcast_dim_def nrows_def transposed_def
      ndarray_def isclose_def bentry_def entry_def atol_def rtol_def upt_conv_Cons
      mean0_def sum0_def isub_def column_def row_def Let_def)
  have n: "linalg_norm (Matrix 2 [[1 / 2, - 1 / 2], [- 1 / 2, 1 / 2]]) \<noteq> 0"
    by (simp add: linalg_norm_def ravel_def)
  show ?thesis
    using c n cka_self_similarity [OF c n] by simp
qed

section \<open>Closed forms of \<^verbatim>\<open>cka\<close> and \<^verbatim>\<open>cca\<close>\<close>

lemma linalg_norm_ndarray:
  "linalg_norm (ndarray n m f) = sqrt (\<Sum>i<n. \<Sum>j<m. f i j * f i j)"
  by (simp add: linalg_norm_def sum_list_ravel_ndarray)

lemma sum_squares_nonneg:
  fixes f :: "nat \<Rightarrow> nat \<Rightarrow> real"
  shows "0 \<le> (\<Sum>i<n. \<Sum>j<m. f i j * f i j)"
  by (intro sum_nonneg) simp

lemma linalg_norm_ndarray_squared:
  "(linalg_norm (ndarray n m f))\<^sup>2 = (\<Sum>i<n. \<Sum>j<m. f i j * f i j)"
  by (simp add: linalg_norm_ndarray sum_squares_nonneg)

lemma vdot_ravel_ndarray:
  "vdot (ravel (ndarray n m f)) (ravel (ndarray n m g)) = Return (\<Sum>i<n. \<Sum>j<m. f i j * g i j)"
  by (simp add: vdot_def length_ravel_ndarray sum_list_map2_ravel_ndarray)

lemma dot_transposed:
  assumes "nrows a = nrows b"
  shows "dot (transposed a) b
       = Return (ndarray (ncols a) (ncols b) (\<lambda>i j. \<Sum>k<nrows a. entry a k i * entry b k j))"
proof -
  have "ndarray (ncols a) (ncols b)
          (\<lambda>i j. sum_list (map (\<lambda>k. entry (transposed a) i k * entry b k j) [0..<nrows a]))
      = ndarray (ncols a) (ncols b) (\<lambda>i j. \<Sum>k<nrows a. entry a k i * entry b k j)"
    by (rule ndarray_cong) (simp add: sum_list_upt entry_transposed)
  then show ?thesis
    by (simp add: dot_def nrows_transposed ncols_transposed assms)
qed

lemma dot_transposed_mismatch:
  "nrows a \<noteq> nrows b \<Longrightarrow> dot (transposed a) b = Raise (ValueError ''shapes not aligned'')"
  by (simp add: dot_def ncols_transposed)

lemma cka_ndarray:
  assumes "center_gram gram_x debiased = Return (ndarray n m f)"
    and "center_gram gram_y debiased = Return (ndarray n m g)"
    and "size_of gram_x = size_of gram_y"
  shows "cka gram_x gram_y debiased
       = np_divide (\<Sum>i<n. \<Sum>j<m. f i j * g i j)
           (sqrt (\<Sum>i<n. \<Sum>j<m. f i j * f i j) * sqrt (\<Sum>i<n. \<Sum>j<m. g i j * g i j))"
  by (simp add: cka_def assms vdot_ravel_ndarray linalg_norm_ndarray)

lemma center_gram_square_cases:
  assumes "is_square n g"
  shows "center_gram g unbiased = Raise (ValueError ''Input must be a symmetric matrix.'')
      \<or> center_gram g unbiased = NonFinite
      \<or> (\<exists>f. center_gram g unbiased = Return (ndarray n n f))"
proof (cases unbiased)
  case True
  have shape: "nrows g = n"
    using assms by (simp add: is_square_def)
  from True show ?thesis
    by (simp add: center_gram_unbiased_square[OF assms] unbiased_centering_steps_def Let_def shape)
       blast
next
  case False
  then show ?thesis
    by (simp add: center_gram_biased_square[OF assms]) blast
qed

lemma size_of_square: "is_square n g \<Longrightarrow> size_of g = n * n"
  by (simp add: is_square_def size_of_def)

lemma cka_square_commute:
  assumes x: "is_square n gram_x" and y: "is_square n gram_y"
  shows "cka gram_x gram_y debiased = cka gram_y gram_x debiased"
proof -
  have size: "size_of gram_x = size_of gram_y"
    using x y by (simp add: size_of_square)
  consider
    (asymmetric) "center_gram gram_x debiased = Raise (ValueError ''Input must be a symmetric matrix.'')"
    | (nonfinite) "center_gram gram_x debiased = NonFinite"
    | (centered) f where "center_gram gram_x debiased = Return (ndarray n n f)"
    using center_gram_square_cases[OF x] by blast
  then show ?thesis
  proof cases
    case asymmetric
    with center_gram_square_cases[OF y, of debiased] show ?thesis
      by (auto simp: cka_def)
  next
    case nonfinite
    with center_gram_square_cases[OF y, of debiased] show ?thesis
      by (auto simp: cka_def size)
  next
    case (centered f)
    note cx = this
    consider
      (asymmetric) "center_gram gram_y debiased = Raise (ValueError ''Input must be a symmetric matrix.'')"
      | (nonfinite) "center_gram gram_y debiased = NonFinite"
      | (centered) g where "center_gram gram_y debiased = Return (ndarray n n g)"
      using center_gram_square_cases[OF y] by blast
    then show ?thesis
    proof cases
      case asymmetric
      then show ?thesis by (simp add: cka_def cx)
    next
      case nonfinite
      then show ?thesis by (simp add: cka_def cx size)
    next
      case (centered g)
      have "(\<Sum>i<n. \<Sum>j<n. f i j * g i j) = (\<Sum>i<n. \<Sum>j<n. g i j * f i j)"
        by (simp add: mult.commute)
      then show ?thesis
        by (simp add: cka_ndarray[OF cx centered size] cka_ndarray[OF centered cx size[symmetric]]
            mult.commute)
    qed
  qed
qed

lemma cca_commute:
  assumes "nrows (qr x) = nrows (qr y)"
  shows "cca qr x y = cca qr y x"
proof -
  define n where "n = nrows (qr x)"
  have nx: "nrows (qr x) = n" and ny: "nrows (qr y) = n"
    using assms by (simp_all add: n_def)
  have swap: "(\<Sum>i<ncols (qr x). \<Sum>j<ncols (qr y).
           (\<Sum>k<n. entry (qr x) k i * entry (qr y) k j) * (\<Sum>k<n. entry (qr x) k i * entry (qr y) k j))
      = (\<Sum>j<ncols (qr y). \<Sum>i<ncols (qr x).
           (\<Sum>k<n. entry (qr y) k j * entry (qr x) k i) * (\<Sum>k<n. entry (qr y) k j * entry (qr x) k i))"
    by (subst sum.swap) (simp add: mult.commute)
  have xy: "dot (transposed (qr x)) (qr y)
      = Return (ndarray (ncols (qr x)) (ncols (qr y)) (\<lambda>i j. \<Sum>k<n. entry (qr x) k i * entry (qr y) k j))"
    using dot_transposed[of "qr x" "qr y"] by (simp add: nx ny)
  have yx: "dot (transposed (qr y)) (qr x)
      = Return (ndarray (ncols (qr y)) (ncols (qr x)) (\<lambda>i j. \<Sum>k<n. entry (qr y) k i * entry (qr x) k j))"
    using dot_transposed[of "qr y" "qr x"] by (simp add: nx ny)
  show ?thesis
    by (simp add: cca_def Let_def xy yx linalg_norm_ndarray_squared swap min.commute)
qed

section \<open>Closed forms of \<^verbatim>\<open>feature_space_linear_cka\<close>\<close>

lemma length_mean0: "length (mean0 a) = ncols a"
  by (simp add: mean0_def length_sum0)

lemma nth_mean0: "j < ncols a \<Longrightarrow> mean0 a ! j = (\<Sum>i<nrows a. entry a i j) / real (nrows a)"
  by (simp add: mean0_def length_sum0 nth_sum0)

lemma center_columns_ndarray:
  "center_columns x = ndarray (nrows x) (ncols x) (centered_feature x)"
  unfolding center_columns_def Let_def
  by (rule ndarray_cong) (simp add: centered_feature_def nth_mean0)

lemma nrows_center_columns: "nrows (center_columns x) = nrows x"
  by (simp add: center_columns_ndarray nrows_ndarray)

lemma ncols_center_columns: "ncols (center_columns x) = ncols x"
  by (simp add: center_columns_ndarray ncols_ndarray)

lemma entry_center_columns:
  "i < nrows x \<Longrightarrow> a < ncols x \<Longrightarrow> entry (center_columns x) i a = centered_feature x i a"
  by (simp add: center_columns_ndarray entry_ndarray)

lemma dot_centered:
  assumes "nrows x = nrows y"
  shows "dot (transposed (center_columns x)) (center_columns y)
       = Return (ndarray (ncols x) (ncols y)
                   (\<lambda>a b. \<Sum>i<nrows x. centered_feature x i a * centered_feature y i b))"
proof -
  have "ndarray (ncols x) (ncols y)
          (\<lambda>a b. \<Sum>i<nrows x. entry (center_columns x) i a * entry (center_columns y) i b)
      = ndarray (ncols x) (ncols y)
          (\<lambda>a b. \<Sum>i<nrows x. centered_feature x i a * centered_feature y i b)"
    by (rule ndarray_cong) (simp add: entry_center_columns assms[symmetric])
  then show ?thesis
    using dot_transposed[of "center_columns x" "center_columns y"]
    by (simp add: nrows_center_columns ncols_center_columns assms)
qed

lemma dot_centered_mismatch:
  "nrows x \<noteq> nrows y \<Longrightarrow>
     dot (transposed (center_columns x)) (center_columns y) = Raise (ValueError ''shapes not aligned'')"
  by (simp add: dot_transposed_mismatch nrows_center_columns)

lemma cross_similarity_nonneg: "0 \<le> cross_similarity x y"
  unfolding cross_similarity_def by (intro sum_nonneg) simp

lemma linalg_norm_cross:
  "linalg_norm (ndarray (ncols x) (ncols y)
      (\<lambda>a b. \<Sum>i<nrows x. centered_feature x i a * centered_feature y i b))
   = sqrt (cross_similarity x y)"
  by (simp add: linalg_norm_ndarray cross_similarity_def power2_eq_square)

lemma feature_space_products:
  assumes "nrows x = nrows y"
  shows "feature_space_linear_cka x y debiased =
    (let features_x = center_columns x;
         features_y = center_columns y;
         dot_product_similarity = cross_similarity x y;
         normalization_x = sqrt (cross_similarity x x);
         normalization_y = sqrt (cross_similarity y y)
     in if debiased then
              (let n = nrows x;
                   sum_squared_rows_x = einsum_ij_ij_i features_x features_x;
                   sum_squared_rows_y = einsum_ij_ij_i features_y features_y;
                   squared_norm_x = sum_list sum_squared_rows_x;
                   squared_norm_y = sum_list sum_squared_rows_y
               in case debiased_dot_product_similarity_helper dot_product_similarity
                         sum_squared_rows_x sum_squared_rows_y squared_norm_x squared_norm_y n of
                    Raise e \<Rightarrow> Raise e
                  | NonFinite \<Rightarrow> NonFinite
                  | Return dps \<Rightarrow>
                 (case debiased_dot_product_similarity_helper (normalization_x ^ 2)
                         sum_squared_rows_x sum_squared_rows_x squared_norm_x squared_norm_x n of
                    Raise e \<Rightarrow> Raise e
                  | NonFinite \<Rightarrow> NonFinite
                  | Return sx \<Rightarrow>
                 (case np_sqrt sx of
                    Raise e \<Rightarrow> Raise e
                  | NonFinite \<Rightarrow> NonFinite
                  | Return nx \<Rightarrow>
                 (case debiased_dot_product_similarity_helper (normalization_y ^ 2)
                         sum_squared_rows_y sum_squared_rows_y squared_norm_y squared_norm_y n of
                    Raise e \<Rightarrow> Raise e
                  | NonFinite \<Rightarrow> NonFinite
                  | Return sy \<Rightarrow>
                 (case np_sqrt sy of
                    Raise e \<Rightarrow> Raise e
                  | NonFinite \<Rightarrow> NonFinite
                  | Return ny \<Rightarrow> np_divide dps (nx * ny))))))
            else np_divide dot_product_similarity (normalization_x * normalization_y))"
proof -
  have sq: "(sqrt (cross_similarity x y))\<^sup>2 = cross_similarity x y"
    by (simp add: cross_similarity_nonneg)
  show ?thesis
    unfolding feature_space_linear_cka_def Let_def dot_centered[OF assms] dot_centered[OF refl]
      result.case linalg_norm_cross sq nrows_center_columns ..
qed


lemma feature_space_mismatch:
  "nrows x \<noteq> nrows y \<Longrightarrow>
     feature_space_linear_cka x y debiased = Raise (ValueError ''shapes not aligned'')"
  by (simp add: feature_space_linear_cka_def Let_def dot_centered_mismatch)


lemma einsum_centered: "einsum_ij_ij_i (center_columns x) (center_columns x) = sum_squared_rows x"
  by (simp add: einsum_ij_ij_i_def sum_squared_rows_def nrows_center_columns ncols_center_columns
      sum_list_upt entry_center_columns power2_eq_square)

lemma length_sum_squared_rows: "length (sum_squared_rows x) = nrows x"
  by (simp add: sum_squared_rows_def)

lemma sum_list_map2_nth:
  fixes u v :: "real list"
  assumes "length u = length v"
  shows "sum_list (map2 (*) u v) = (\<Sum>i<length u. u ! i * v ! i)"
proof -
  have "map2 (*) u v = map (\<lambda>i. u ! i * v ! i) [0..<length u]"
    by (rule nth_equalityI) (simp_all add: assms)
  then show ?thesis
    by (simp add: sum_list_upt)
qed

lemma helper_cases:
  assumes "length ssr_x = length ssr_y"
  shows "debiased_dot_product_similarity_helper raw ssr_x ssr_y sq_x sq_y n
       = (if n = 2 then Raise (ZeroDivisionError ''float division by zero'')
          else if n = 1 then NonFinite
          else Return (debiased_formula raw ssr_x ssr_y sq_x sq_y n))"
proof -
  have "real n - 2 = 0 \<longleftrightarrow> n = 2" "real n - 1 = 0 \<longleftrightarrow> n = 1"
    by auto
  then show ?thesis
    by (simp add: debiased_dot_product_similarity_helper_def vdot_def assms
        sum_list_map2_nth debiased_formula_def)
qed

lemma feature_space_debiased:
  assumes "nrows x = nrows y"
  shows "feature_space_linear_cka x y True
       = (if nrows x = 2 then Raise (ZeroDivisionError ''float division by zero'')
          else if nrows x = 1 then NonFinite
          else debiased_linear_cka_formula x y)"
proof -
  have len: "length (sum_squared_rows x) = length (sum_squared_rows y)"
    by (simp add: length_sum_squared_rows assms)
  have sq: "(sqrt (cross_similarity u u))\<^sup>2 = cross_similarity u u" for u
    by (simp add: cross_similarity_nonneg)
  show ?thesis
    unfolding feature_space_products[OF assms] Let_def einsum_centered
      helper_cases[OF len] helper_cases[OF refl] debiased_linear_cka_formula_def sq
    by (simp split: result.splits)
qed

section \<open>Claims about the similarity scores\<close>



text \<open>
  Claim C4.  For \<open>n \<ge> 3\<close> the helper returns exactly
  \<open>raw - n/(n-2) \<cdot> (ssr_x \<cdot> ssr_y) + sq_norm_x \<cdot> sq_norm_y / ((n-1)(n-2))\<close>, and the
  debiased \<^verbatim>\<open>feature_space_linear_cka\<close> is that formula applied to the cross term and to
  both self-similarities, with \<open>ssr[i]\<close> the sum of the squared column-centered
  features of row \<open>i\<close> and \<open>sq_norm = sum(ssr)\<close>, each normalization being the square
  root of its corrected value.
\<close>

theorem debiased_helper_formula:
  "(length ssr_x = length ssr_y \<longrightarrow> 3 \<le> n \<longrightarrow>
      debiased_dot_product_similarity_helper raw ssr_x ssr_y sq_norm_x sq_norm_y n
        = Return (debiased_formula raw ssr_x ssr_y sq_norm_x sq_norm_y n))
   \<and> (nrows x = nrows y \<longrightarrow> 3 \<le> nrows x \<longrightarrow>
        feature_space_linear_cka x y True = debiased_linear_cka_formula x y)"
  by (simp add: helper_cases feature_space_debiased)

text \<open>The helper at \<open>n = 3\<close>, and two feature matrices with three rows.\<close>

theorem debiased_helper_formula_witness:
  "length [1, 2, 3 :: real] = length [4, 5, 6 :: real] \<and> (3::nat) \<le> 3
   \<and> debiased_dot_product_similarity_helper 10 [1, 2, 3] [4, 5, 6] 6 15 3
        = Return (debiased_formula 10 [1, 2, 3] [4, 5, 6] 6 15 3)
   \<and> nrows (Matrix 2 [[1, 2], [3, 4], [5, 7]]) = nrows (Matrix 1 [[1], [0], [2]])
   \<and> 3 \<le> nrows (Matrix 2 [[1, 2], [3, 4], [5, 7]])
   \<and> feature_space_linear_cka (Matrix 2 [[1, 2], [3, 4], [5, 7]]) (Matrix 1 [[1], [0], [2]]) True
       = debiased_linear_cka_formula (Matrix 2 [[1, 2], [3, 4], [5, 7]]) (Matrix 1 [[1], [0], [2]])"
  using debiased_helper_formula [of "[1, 2, 3]" "[4, 5, 6]" 3 10 6 15
          "Matrix 2 [[1, 2], [3, 4], [5, 7]]" "Matrix 1 [[1], [0], [2]]"]
  by (simp add: nrows_def)

text \<open>
  Claim C6.  Both scores are symmetric in their arguments: \<^verbatim>\<open>cka(Gx, Gy) = cka(Gy, Gx)\<close>
  for square Gram matrices of equal size, in both modes, and \<^verbatim>\<open>cca(X, Y) = cca(Y, X)\<close>
  for feature matrices with the same number of rows, whatever factor \<open>Q\<close> with as many
  rows as its argument \<^verbatim>\<open>np.linalg.qr\<close> returns.
\<close>

theorem similarity_scores_commute:
  assumes "is_square n gram_x" and "is_square n gram_y"
    and "nrows x = nrows y" and "nrows (qr x) = nrows x" and "nrows (qr y) = nrows y"
  shows "cka gram_x gram_y debiased = cka gram_y gram_x debiased \<and> cca qr x y = cca qr y x"
  using assms by (simp add: cka_square_commute cca_commute)

text \<open>Two \<open>2 \<times> 2\<close> Gram matrices, and two feature matrices with orthonormal columns,
  which are their own factor \<open>Q\<close>.\<close>

theorem similarity_scores_commute_witness:
  "is_square 2 (Matrix 2 [[1, 0], [0, 1]]) \<and> is_square 2 (Matrix 2 [[2, 1], [1, 2]])
   \<and> nrows (Matrix 1 [[1], [0]]) = nrows (Matrix 2 [[0, 1], [1, 0]])
   \<and> nrows ((\<lambda>a. a) (Matrix 1 [[1], [0]])) = nrows (Matrix 1 [[1], [0]])
   \<and> nrows ((\<lambda>a. a) (Matrix 2 [[0, 1], [1, 0]])) = nrows (Matrix 2 [[0, 1], [1, 0]])
   \<and> cka (Matrix 2 [[1, 0], [0, 1]]) (Matrix 2 [[2, 1], [1, 2]]) False
       = cka (Matrix 2 [[2, 1], [1, 2]]) (Matrix 2 [[1, 0], [0, 1]]) False
   \<and> cca (\<lambda>a. a) (Matrix 1 [[1], [0]]) (Matrix 2 [[0, 1], [1, 0]])
       = cca (\<lambda>a. a) (Matrix 2 [[0, 1], [1, 0]]) (Matrix 1 [[1], [0]])"
proof -
  have sx: "is_square 2 (Matrix 2 [[1, 0], [0, 1]])" and sy: "is_square 2 (Matrix 2 [[2, 1], [1, 2]])"
    by (simp_all add: is_square_def wf_matrix_def nrows_def)
  have n: "nrows (Matrix 1 [[1], [0]]) = nrows (Matrix 2 [[0, 1], [1, 0]])"
    by (simp add: nrows_def)
  show ?thesis
    using sx sy n
      similarity_scores_commute [OF sx sy n, of "\<lambda>a. a" False]
    by simp
qed

section \<open>Shapes that do not fit\<close>

lemma nrows_fill_diagonal: "nrows (fill_diagonal a v) = nrows a"
  by (simp add: fill_diagonal_def nrows_def)

lemma ncols_fill_diagonal: "ncols (fill_diagonal a v) = ncols a"
  by (simp add: fill_diagonal_def)

lemma nrows_column: "nrows (column v) = length v"
  by (simp add: column_def nrows_def)

lemma ncols_column: "ncols (column v) = 1"
  by (simp add: column_def)

lemma isub_Raise_ValueError: "isub a b = Raise e \<Longrightarrow> \<exists>msg. e = ValueError msg"
  by (auto simp: isub_def split: option.splits if_splits)

lemma isub_not_NonFinite: "isub a b \<noteq> NonFinite"
  by (auto simp: isub_def split: option.splits if_splits)

lemma allclose_Raise_ValueError: "allclose a b = Raise e \<Longrightarrow> \<exists>msg. e = ValueError msg"
  by (auto simp: allclose_def split: option.splits)

lemma center_gram_Raise_ValueError:
  assumes "center_gram g unbiased = Raise e"
  shows "\<exists>msg. e = ValueError msg"
  using assms
  unfolding center_gram_def Let_def
  by (auto split: result.splits if_splits
      dest: isub_Raise_ValueError allclose_Raise_ValueError)

lemma isub_column_row_vector:
  assumes "nrows a = 1" and "length v \<noteq> 1"
  shows "\<exists>msg. isub a (column v) = Raise (ValueError msg)"
  using assms
  by (simp add: isub_def nrows_column ncols_column broadcast_dim_def split: option.splits)

lemma center_gram_nonsquare:
  assumes "nrows g \<noteq> ncols g" and "ncols g \<noteq> 1"
  shows "\<exists>msg. center_gram g unbiased = Raise (ValueError msg)"
proof (cases "nrows g = 1")
  case False
  with assms have "allclose g (transposed g)
      = Raise (ValueError ''operands could not be broadcast together'')"
    by (simp add: allclose_def nrows_transposed broadcast_dim_def)
  then show ?thesis
    by (simp add: center_gram_def)
next
  case True
  obtain close where close: "allclose g (transposed g) = Return close"
    using True assms
    by (simp add: allclose_def nrows_transposed ncols_transposed broadcast_dim_def)
  show ?thesis
  proof (cases close)
    case False
    then show ?thesis
      by (simp add: center_gram_def close)
  next
    case c: True
    show ?thesis
    proof (cases unbiased)
      case True
      define means0 where "means0 = map (\<lambda>s. s / (real (nrows g) - 2)) (sum0 (fill_diagonal g 0))"
      define means where "means = map (\<lambda>m. m - sum_list means0 / (2 * (real (nrows g) - 1))) means0"
      have "length means \<noteq> 1"
        using assms by (simp add: means_def means0_def length_sum0 ncols_fill_diagonal)
      then obtain msg where "isub (fill_diagonal g 0) (column means) = Raise (ValueError msg)"
        using isub_column_row_vector[of "fill_diagonal g 0" means] \<open>nrows g = 1\<close>
        by (auto simp: nrows_fill_diagonal)
      then show ?thesis
        unfolding center_gram_def close Let_def means_def means0_def
        using c True by simp
    next
      case False
      define means0 where "means0 = mean0 g"
      define means where "means = map (\<lambda>m. m - (sum_list means0 / real (length means0)) / 2) means0"
      have "length means \<noteq> 1"
        using assms by (simp add: means_def means0_def length_mean0)
      then obtain msg where "isub g (column means) = Raise (ValueError msg)"
        using isub_column_row_vector[of g means] \<open>nrows g = 1\<close> by auto
      then show ?thesis
        unfolding center_gram_def close Let_def means_def means0_def
        using c False by simp
    qed
  qed
qed

lemma cka_Raise_left:
  "center_gram gram_x debiased = Raise e \<Longrightarrow> cka gram_x gram_y debiased = Raise e"
  by (simp add: cka_def)

lemma cka_Raise_right:
  assumes "center_gram gram_y debiased = Raise (ValueError msg)"
  shows "\<exists>msg'. cka gram_x gram_y debiased = Raise (ValueError msg')"
proof (cases "center_gram gram_x debiased")
  case (Raise e)
  then show ?thesis
    using center_gram_Raise_ValueError[OF Raise] by (auto simp: cka_def)
next
  case NonFinite
  then show ?thesis by (simp add: cka_def assms)
next
  case (Return c)
  then show ?thesis by (simp add: cka_def assms)
qed

lemma cka_square_sizes_differ:
  assumes x: "is_square n gram_x" and y: "is_square m gram_y" and "n \<noteq> m"
  shows "cka gram_x gram_y debiased
       = Raise (ValueError (if symmetric_within_tolerance gram_x \<and> symmetric_within_tolerance gram_y
                            then ''shapes not aligned''
                            else ''Input must be a symmetric matrix.''))"
proof -
  have "n * n \<noteq> m * m"
    using \<open>n \<noteq> m\<close> by (metis power2_eq_iff_nonneg power2_eq_square zero_le)
  then have size: "size_of gram_x \<noteq> size_of gram_y"
    using x y by (simp add: size_of_square)
  show ?thesis
  proof (cases debiased)
    case True
    then show ?thesis
      by (simp add: cka_def center_gram_unbiased_square[OF x] center_gram_unbiased_square[OF y] size)
  next
    case False
    then show ?thesis
      by (simp add: cka_def center_gram_biased_square[OF x] center_gram_biased_square[OF y] size)
  qed
qed

text \<open>
  Claim C8, as amended.  No function checks shapes before it computes; the error, where
  there is one, is the \<^verbatim>\<open>ValueError\<close> of the first numpy operation whose operands do
  not fit.  \<^verbatim>\<open>feature_space_linear_cka\<close> and \<^verbatim>\<open>cca\<close> raise it when the numbers of rows
  differ; \<^verbatim>\<open>cka\<close> raises a \<^verbatim>\<open>ValueError\<close> for square Gram matrices of different sizes
  (the one of the symmetry check when an input is not symmetric, the one of the product
  otherwise) and for a Gram matrix that is not square and has more than one column.
\<close>

theorem shape_mismatch_errors:
  "(nrows x \<noteq> nrows y \<longrightarrow>
      feature_space_linear_cka x y debiased = Raise (ValueError ''shapes not aligned''))
   \<and> (nrows (qr x) = nrows x \<longrightarrow> nrows (qr y) = nrows y \<longrightarrow> nrows x \<noteq> nrows y \<longrightarrow>
        cca qr x y = Raise (ValueError ''shapes not aligned''))
   \<and> (is_square n gram_x \<longrightarrow> is_square m gram_y \<longrightarrow> n \<noteq> m \<longrightarrow>
        cka gram_x gram_y debiased
          = Raise (ValueError (if symmetric_within_tolerance gram_x
                                  \<and> symmetric_within_tolerance gram_y
                               then ''shapes not aligned''
                               else ''Input must be a symmetric matrix.'')))
   \<and> (nrows g \<noteq> ncols g \<longrightarrow> ncols g \<noteq> 1 \<longrightarrow>
        (\<exists>msg. cka g gram_y debiased = Raise (ValueError msg))
        \<and> (\<exists>msg. cka gram_x g debiased = Raise (ValueError msg)))"
proof (intro conjI impI)
  assume "nrows x \<noteq> nrows y"
  then show "feature_space_linear_cka x y debiased = Raise (ValueError ''shapes not aligned'')"
    by (rule feature_space_mismatch)
next
  assume "nrows (qr x) = nrows x" "nrows (qr y) = nrows y" "nrows x \<noteq> nrows y"
  then show "cca qr x y = Raise (ValueError ''shapes not aligned'')"
    by (simp add: cca_def Let_def dot_transposed_mismatch)
next
  assume "is_square n gram_x" "is_square m gram_y" "n \<noteq> m"
  then show "cka gram_x gram_y debiased
          = Raise (ValueError (if symmetric_within_tolerance gram_x
                                  \<and> symmetric_within_tolerance gram_y
                               then ''shapes not aligned''
                               else ''Input must be a symmetric matrix.''))"
    by (rule cka_square_sizes_differ)
next
  assume "nrows g \<noteq> ncols g" "ncols g \<noteq> 1"
  then obtain msg where "center_gram g debiased = Raise (ValueError msg)"
    using center_gram_nonsquare by blast
  then show "\<exists>msg. cka g gram_y debiased = Raise (ValueError msg)"
    by (auto simp: cka_Raise_left)
next
  assume "nrows g \<noteq> ncols g" "ncols g \<noteq> 1"
  then obtain msg where "center_gram g debiased = Raise (ValueError msg)"
    using center_gram_nonsquare by blast
  then show "\<exists>msg. cka gram_x g debiased = Raise (ValueError msg)"
    by (rule cka_Raise_right)
qed

text \<open>Feature matrices with two and three rows, Gram matrices of sizes 1 and 2, and a
  \<open>1 \<times> 2\<close> Gram matrix.\<close>

theorem shape_mismatch_errors_witness:
  "nrows (Matrix 1 [[1], [2]]) \<noteq> nrows (Matrix 1 [[1], [2], [3]])
   \<and> feature_space_linear_cka (Matrix 1 [[1], [2]]) (Matrix 1 [[1], [2], [3]]) False
       = Raise (ValueError ''shapes not aligned'')
   \<and> nrows ((\<lambda>a. a) (Matrix 1 [[1], [2]])) = nrows (Matrix 1 [[1], [2]])
   \<and> nrows ((\<lambda>a. a) (Matrix 1 [[1], [2], [3]])) = nrows (Matrix 1 [[1], [2], [3]])
   \<and> cca (\<lambda>a. a) (Matrix 1 [[1], [2]]) (Matrix 1 [[1], [2], [3]])
       = Raise (ValueError ''shapes not aligned'')
   \<and> is_square 1 (Matrix 1 [[1]]) \<and> is_square 2 (Matrix 2 [[1, 0], [0, 1]]) \<and> (1::nat) \<noteq> 2
   \<and> cka (Matrix 1 [[1]]) (Matrix 2 [[1, 0], [0, 1]]) False
       = Raise (ValueError ''shapes not aligned'')
   \<and> nrows (Matrix 2 [[1, 2]]) \<noteq> ncols (Matrix 2 [[1, 2]]) \<and> ncols (Matrix 2 [[1, 2]]) \<noteq> 1
   \<and> (\<exists>msg. cka (Matrix 2 [[1, 2]]) (Matrix 2 [[1, 0], [0, 1]]) False = Raise (ValueError msg))
   \<and> (\<exists>msg. cka (Matrix 1 [[1]]) (Matrix 2 [[1, 2]]) False = Raise (ValueError msg))"
proof -
  have sq: "is_square 1 (Matrix 1 [[1]])" "is_square 2 (Matrix 2 [[1, 0], [0, 1]])"
    by (simp_all add: is_square_def wf_matrix_def nrows_def)
  have sym: "symmetric_within_tolerance (Matrix 1 [[1]])"
    "symmetric_within_tolerance (Matrix 2 [[1, 0], [0, 1]])"
    by (simp_all add: symmetric_within_tolerance_def nrows_def entry_def upt_conv_Cons)
  show ?thesis
    using sq sym
      shape_mismatch_errors [of "Matrix 1 [[1], [2]]" "Matrix 1 [[1], [2], [3]]" False "\<lambda>a. a"
        1 "Matrix 1 [[1]]" 2 "Matrix 2 [[1, 0], [0, 1]]" "Matrix 2 [[1, 2]]"]
    by (simp add: nrows_def)
qed

text \<open>
  Claim C8 as it is worded fails for a Gram matrix of shape \<open>(3, 1)\<close>: broadcasting
  lets the symmetry check and both subtractions through, and \<^verbatim>\<open>cka\<close> returns 1.
\<close>

theorem cka_accepts_column_gram_counterexample:
  "wf_matrix (Matrix 1 [[1], [1], [1]]) \<and> nrows (Matrix 1 [[1], [1], [1]]) = 3
   \<and> ncols (Matrix 1 [[1], [1], [1]]) = 1
   \<and> cka (Matrix 1 [[1], [1], [1]]) (Matrix 1 [[1], [1], [1]]) True = Return 1"
  by (simp add: cka_def center_gram_def allclose_def broadcast_dim_def nrows_def transposed_def
      ndarray_def isclose_def bentry_def entry_def atol_def rtol_def fill_diagonal_def sum0_def
      isub_def column_def row_def size_of_def vdot_def ravel_def linalg_norm_def np_divide_def
      wf_matrix_def Let_def upt_conv_Cons)

section \<open>The RBF kernel\<close>

lemma dot_self_transposed:
  "dot x (transposed x) = Return (ndarray (nrows x) (nrows x) (linear_gram x))"
proof -
  have "ndarray (nrows x) (nrows x)
          (\<lambda>i j. sum_list (map (\<lambda>k. entry x i k * entry (transposed x) k j) [0..<ncols x]))
      = ndarray (nrows x) (nrows x) (linear_gram x)"
    by (rule ndarray_cong) (simp add: sum_list_upt entry_transposed linear_gram_def)
  then show ?thesis
    by (simp add: dot_def nrows_transposed ncols_transposed)
qed


lemma nth_diag: "i < nrows a \<Longrightarrow> i < ncols a \<Longrightarrow> diag a ! i = entry a i i"
  by (simp add: diag_def)

lemma ravel_sq_distances:
  "ravel (ndarray (nrows x) (nrows x) (sq_distance x)) = all_sq_distances x"
  by (simp add: ravel_def ndarray_def all_sq_distances_def)

lemma ndarray_empty: "ndarray 0 m f = Matrix m []"
  by (simp add: ndarray_def)

text \<open>
  Claim C5.  \<^verbatim>\<open>gram_rbf\<close> returns the matrix of \<open>exp(- d\<^sup>2(i,j) / (2 \<sigma>\<^sup>2))\<close> with
  \<open>d\<^sup>2(i,j) = g(i,i) - 2 g(i,j) + g(j,j)\<close>, \<open>g = X X\<^sup>T\<close> and
  \<open>\<sigma>\<^sup>2 = threshold\<^sup>2 \<times> median(d\<^sup>2)\<close>; the median is over all \<open>N\<^sup>2\<close> entries, the
  zero diagonal among them.  Where \<open>\<sigma>\<^sup>2 = 0\<close> the quotient is not a number and
  neither is the result.
\<close>

theorem gram_rbf_computes_spec:
  "gram_rbf x threshold
     = (if nrows x \<noteq> 0 \<and> bandwidth x threshold = 0 then NonFinite
        else Return (rbf_kernel_spec x threshold))
   \<and> length (all_sq_distances x) = nrows x * nrows x
   \<and> sq_distance x i i = 0"
proof (intro conjI)
  define n where "n = nrows x"
  define dp where "dp = ndarray n n (linear_gram x)"
  have sqd: "ndarray n n (\<lambda>i j. - 2 * entry dp i j + diag dp ! i + diag dp ! j)
      = ndarray n n (sq_distance x)"
    by (rule ndarray_cong)
       (simp add: dp_def nth_diag nrows_ndarray ncols_ndarray entry_ndarray sq_distance_def
          linear_gram_def Let_def)
  have kernel: "ndarray n n (\<lambda>i j. exp (- entry (ndarray n n (sq_distance x)) i j / d))
      = ndarray n n (\<lambda>i j. exp (- sq_distance x i j / d))" for d
    by (rule ndarray_cong) (simp add: entry_ndarray)
  have dpr: "dot x (transposed x) = Return dp"
    by (simp add: dot_self_transposed dp_def n_def)
  have ndp: "nrows dp = n"
    by (simp add: dp_def nrows_ndarray)
  have rav: "ravel (ndarray n n (sq_distance x)) = all_sq_distances x"
    by (simp add: n_def ravel_sq_distances)
  have "gram_rbf x threshold
      = (if n = 0 then Return (ndarray n n (sq_distance x))
         else if 2 * threshold\<^sup>2 * median (all_sq_distances x) = 0 then NonFinite
         else Return (ndarray n n (\<lambda>i j. exp (- sq_distance x i j
                 / (2 * threshold\<^sup>2 * median (all_sq_distances x))))))"
    unfolding gram_rbf_def dpr result.case Let_def ndp sqd kernel rav ..
  also have "\<dots> = (if nrows x \<noteq> 0 \<and> bandwidth x threshold = 0 then NonFinite
        else Return (rbf_kernel_spec x threshold))"
    by (simp add: n_def bandwidth_def rbf_kernel_spec_def ndarray_empty mult.assoc)
  finally show "gram_rbf x threshold
     = (if nrows x \<noteq> 0 \<and> bandwidth x threshold = 0 then NonFinite
        else Return (rbf_kernel_spec x threshold))" .
next
  show "length (all_sq_distances x) = nrows x * nrows x"
    using length_ravel_ndarray[of "nrows x" "nrows x" "sq_distance x"]
    by (simp add: ravel_sq_distances)
next
  show "sq_distance x i i = 0"
    by (simp add: sq_distance_def Let_def)
qed

text \<open>Three points on a line, at 0, 1 and 3: the median of the nine squared distances
  is 1.\<close>

theorem gram_rbf_computes_spec_witness:
  "nrows (Matrix 1 [[0], [1], [3]]) \<noteq> 0
   \<and> bandwidth (Matrix 1 [[0], [1], [3]]) 1 = 1
   \<and> gram_rbf (Matrix 1 [[0], [1], [3]]) 1 = Return (rbf_kernel_spec (Matrix 1 [[0], [1], [3]]) 1)
   \<and> length (all_sq_distances (Matrix 1 [[0], [1], [3]])) = 9"
proof -
  have d: "all_sq_distances (Matrix 1 [[0], [1], [3]]) = [0, 1, 9, 1, 0, 4, 9, 4, 0]"
    by (simp add: all_sq_distances_def sq_distance_def nrows_def entry_def upt_conv_Cons)
  have b: "bandwidth (Matrix 1 [[0], [1], [3]]) 1 = 1"
    unfolding bandwidth_def d median_def Let_def by simp
  show ?thesis
    using b gram_rbf_computes_spec [of "Matrix 1 [[0], [1], [3]]" 1 0]
    by (simp add: nrows_def)
qed

section \<open>Feature-space linear CKA and Gram-matrix CKA agree\<close>


















section \<open>Symmetry of feature-space linear CKA\<close>












end
